theory Spec2Isabelle
  imports Complex_Main
begin

section \<open>JavaScript numbers\<close>

text \<open>
  The dashboard (src/App.tsx) computes with the JavaScript type \<open>number\<close>. A finite
  number is modelled as an exact real (IEEE rounding and overflow are not modelled);
  \<open>NaN\<close> and the two infinities are kept as values of their own, because the code
  tests for them (\<open>Number(x) || 0\<close>) and they change the result of comparisons.
  The sign of zero is not modelled.
\<close>

datatype jsnum = NaN | NInf | Fin real | PInf

text \<open>Unary minus.\<close>

fun js_neg :: "jsnum \<Rightarrow> jsnum" where
  "js_neg NaN = NaN"
| "js_neg NInf = PInf"
| "js_neg PInf = NInf"
| "js_neg (Fin x) = Fin (- x)"

text \<open>The operator \<open>+\<close> on two numbers.\<close>

fun js_add :: "jsnum \<Rightarrow> jsnum \<Rightarrow> jsnum" where
  "js_add NaN _ = NaN"
| "js_add _ NaN = NaN"
| "js_add (Fin x) (Fin y) = Fin (x + y)"
| "js_add PInf NInf = NaN"
| "js_add NInf PInf = NaN"
| "js_add PInf _ = PInf"
| "js_add NInf _ = NInf"
| "js_add (Fin _) PInf = PInf"
| "js_add (Fin _) NInf = NInf"

text \<open>The operator \<open>-\<close> on two numbers.\<close>

definition js_sub :: "jsnum \<Rightarrow> jsnum \<Rightarrow> jsnum" where
  "js_sub a b = js_add a (js_neg b)"

text \<open>The sign of a number that is not NaN: \<open>-1\<close>, \<open>0\<close> or \<open>1\<close>.\<close>

fun js_sign :: "jsnum \<Rightarrow> int" where
  "js_sign NaN = 0"
| "js_sign NInf = - 1"
| "js_sign PInf = 1"
| "js_sign (Fin x) = (if x < 0 then - 1 else if x = 0 then 0 else 1)"

text \<open>The operator \<open>*\<close>: zero times an infinity is NaN.\<close>

fun js_mul :: "jsnum \<Rightarrow> jsnum \<Rightarrow> jsnum" where
  "js_mul NaN _ = NaN"
| "js_mul _ NaN = NaN"
| "js_mul (Fin x) (Fin y) = Fin (x * y)"
| "js_mul a b =
     (if js_sign a * js_sign b = 0 then NaN
      else if js_sign a * js_sign b < 0 then NInf else PInf)"

text \<open>The comparisons \<open><\<close> and \<open>>\<close>: false as soon as one side is NaN.\<close>

fun js_lt :: "jsnum \<Rightarrow> jsnum \<Rightarrow> bool" where
  "js_lt NaN _ = False"
| "js_lt _ NaN = False"
| "js_lt (Fin x) (Fin y) = (x < y)"
| "js_lt NInf NInf = False"
| "js_lt NInf _ = True"
| "js_lt PInf _ = False"
| "js_lt (Fin _) PInf = True"
| "js_lt (Fin _) NInf = False"

definition js_gt :: "jsnum \<Rightarrow> jsnum \<Rightarrow> bool" where
  "js_gt a b = js_lt b a"

text \<open>\<open>Math.min\<close> and \<open>Math.max\<close> of two arguments: NaN if either is NaN.\<close>

definition Math_min :: "jsnum \<Rightarrow> jsnum \<Rightarrow> jsnum" where
  "Math_min a b =
     (if a = NaN \<or> b = NaN then NaN else if js_lt b a then b else a)"

definition Math_max :: "jsnum \<Rightarrow> jsnum \<Rightarrow> jsnum" where
  "Math_max a b =
     (if a = NaN \<or> b = NaN then NaN else if js_lt a b then b else a)"

subsection \<open>Number.prototype.toFixed\<close>

definition digit_char :: "nat \<Rightarrow> char" where
  "digit_char d = ''0123456789'' ! (d mod 10)"

text \<open>The decimal digits of a natural number, most significant first (\<open>0\<close> is "0").\<close>

fun digits :: "nat \<Rightarrow> string" where
  "digits n = (if n < 10 then [digit_char n] else digits (n div 10) @ [digit_char (n mod 10)])"

declare digits.simps [simp del]

text \<open>
  \<open>x.toFixed(f)\<close> for \<open>1 \<le> f\<close>. A value that is not finite prints as its name. Otherwise the
  sign is split off, \<open>n\<close> is the integer with \<open>n / 10^f\<close> closest to \<open>x\<close> (the larger
  one of two), its digits are padded with zeros to \<open>f + 1\<close> characters and the point is
  put before the last \<open>f\<close>. JavaScript prints a magnitude of \<open>10^21\<close> or more in
  exponent notation; that branch is not modelled (it prints in fixed notation here).
\<close>

fun toFixed :: "jsnum \<Rightarrow> nat \<Rightarrow> string" where
  "toFixed NaN f = ''NaN''"
| "toFixed PInf f = ''Infinity''"
| "toFixed NInf f = ''-Infinity''"
| "toFixed (Fin x) f =
     (let s = (if x < 0 then ''-'' else '''');
          x = (if x < 0 then - x else x);
          n = nat \<lfloor>x * 10 ^ f + 1 / 2\<rfloor>;
          m = digits n;
          k = length m;
          m = (if k \<le> f then replicate (f + 1 - k) CHR ''0'' @ m else m);
          k = length m
      in s @ take (k - f) m @ ''.'' @ drop (k - f) m)"

section \<open>The verdict classifier\<close>

record SensorData =
  mq3 :: jsnum
  mq4 :: jsnum
  mq8 :: jsnum
  mq135 :: jsnum

datatype status = SPOILED | FRESH

record Verdict =
  status :: status
  label :: string
  confidence :: string
  details :: string

text \<open>The number \<open>confidence\<close> of \<open>getVerdict\<close>, before it is printed.\<close>

definition confidence_value :: "SensorData \<Rightarrow> jsnum" where
  "confidence_value data =
     (let threshold = Fin 300;
          isSpoiled = js_gt (mq3 data) threshold
      in if isSpoiled
         then Math_min (Fin 99.9) (js_add (Fin 85) (js_mul (js_sub (mq3 data) threshold) (Fin 0.1)))
         else Math_min (Fin 99.9) (js_add (Fin 90) (js_mul (js_sub threshold (mq3 data)) (Fin 0.05))))"

definition getVerdict :: "SensorData \<Rightarrow> Verdict" where
  "getVerdict data =
     (let threshold = Fin 300;
          isSpoiled = js_gt (mq3 data) threshold;
          confidence = confidence_value data
      in \<lparr> status = (if isSpoiled then SPOILED else FRESH),
           label = (if isSpoiled then ''BUSUK (Terdeteksi Fermentasi)''
                    else ''SEGAR (Layak Konsumsi)''),
           confidence = toFixed confidence 2,
           details = (if isSpoiled
                      then ''Kadar alkohol tinggi terdeteksi oleh sensor MQ3, mengindikasikan aktivitas mikroba.''
                      else ''Profil gas dalam batas normal. Tidak ada tanda fermentasi signifikan.'') \<rparr>)"

text \<open>
  The confidence as the specification words it, on a finite primary channel \<open>p\<close>:
  \<open>min(99.9, 85 + (p - 300) * 0.1)\<close> when \<open>p > 300\<close>, and
  \<open>min(99.9, 90 + (300 - p) * 0.05)\<close> otherwise.
\<close>

definition spec_confidence :: "real \<Rightarrow> real" where
  "spec_confidence p =
     (if p > 300 then min 99.9 (85 + (p - 300) * 0.1) else min 99.9 (90 + (300 - p) * 0.05))"

section \<open>Converting form fields to numbers\<close>

text \<open>
  A field of the manual form holds a string (typed into the input element) or a number
  (written by the randomize button): \<open>string | number\<close> in \<open>ManualInputState\<close>.
\<close>

datatype js_value = Str string | Num jsnum

text \<open>
  \<open>Number(s)\<close> on a string, after the grammar \<open>StringNumericLiteral\<close> of the
  language standard: white space is stripped at both ends; the empty string is 0; a
  decimal literal has an optional sign, then \<open>Infinity\<close> or digits with an optional
  fraction and an optional exponent; a binary, octal or hexadecimal integer literal
  takes no sign; every other string is NaN. Strings are byte strings here, so only the
  white space of ASCII is recognised.
\<close>

definition is_white_space :: "char \<Rightarrow> bool" where
  "is_white_space c = (c \<in> set [CHR 0x09, CHR 0x0A, CHR 0x0B, CHR 0x0C, CHR 0x0D, CHR '' ''])"

definition trim :: "string \<Rightarrow> string" where
  "trim s = rev (dropWhile is_white_space (rev (dropWhile is_white_space s)))"

definition is_digit :: "char \<Rightarrow> bool" where
  "is_digit c = (c \<in> set ''0123456789'')"

text \<open>The value of a digit in a base up to 16; \<open>None\<close> for any other character.\<close>

definition digit_value :: "char \<Rightarrow> nat option" where
  "digit_value c =
     map_of (zip ''0123456789abcdefABCDEF''
                 [0, 1, 2, 3, 4, 5, 6, 7, 8, 9, 10, 11, 12, 13, 14, 15, 10, 11, 12, 13, 14, 15]) c"

text \<open>A string of digits of the base \<open>b\<close>, read as a number after the digits in \<open>acc\<close>.\<close>

fun digits_value :: "nat \<Rightarrow> nat \<Rightarrow> string \<Rightarrow> nat option" where
  "digits_value b acc [] = Some acc"
| "digits_value b acc (c # cs) =
     (case digit_value c of
        None \<Rightarrow> None
      | Some d \<Rightarrow> if d < b then digits_value b (acc * b + d) cs else None)"

text \<open>An integer literal: at least one digit of the base \<open>b\<close>.\<close>

definition integer_literal :: "nat \<Rightarrow> string \<Rightarrow> nat option" where
  "integer_literal b s = (if s = [] then None else digits_value b 0 s)"

text \<open>The exponent part: nothing, or \<open>e\<close> or \<open>E\<close>, an optional sign and digits.\<close>

definition exponent_part :: "string \<Rightarrow> int option" where
  "exponent_part s =
     (case s of
        [] \<Rightarrow> Some 0
      | c # t \<Rightarrow>
          if c = CHR ''e'' \<or> c = CHR ''E'' then
            (case t of
               [] \<Rightarrow> None
             | d # u \<Rightarrow>
                 if d = CHR ''-'' then map_option (\<lambda>n. - int n) (integer_literal 10 u)
                 else if d = CHR ''+'' then map_option int (integer_literal 10 u)
                 else map_option int (integer_literal 10 t))
          else None)"

definition scale10 :: "real \<Rightarrow> int \<Rightarrow> real" where
  "scale10 x e = (if 0 \<le> e then x * 10 ^ nat e else x / 10 ^ nat (- e))"

definition StrUnsignedDecimalLiteral :: "string \<Rightarrow> jsnum" where
  "StrUnsignedDecimalLiteral s =
     (if s = ''Infinity'' then PInf
      else
        let ip = takeWhile is_digit s;
            r = dropWhile is_digit s;
            fp = (case r of [] \<Rightarrow> [] | c # t \<Rightarrow> if c = CHR ''.'' then takeWhile is_digit t else []);
            r = (case r of [] \<Rightarrow> [] | c # t \<Rightarrow> if c = CHR ''.'' then dropWhile is_digit t else r)
        in if ip = [] \<and> fp = [] then NaN
           else
             (case (digits_value 10 0 ip, digits_value 10 0 fp, exponent_part r) of
                (Some i, Some f, Some e) \<Rightarrow> Fin (scale10 (real i + real f / 10 ^ length fp) e)
              | _ \<Rightarrow> NaN))"

definition NonDecimalIntegerLiteral :: "string \<Rightarrow> jsnum" where
  "NonDecimalIntegerLiteral s =
     (case s of
        z # x # t \<Rightarrow>
          if z \<noteq> CHR ''0'' then NaN
          else
            (case (if x = CHR ''x'' \<or> x = CHR ''X'' then integer_literal 16 t
                   else if x = CHR ''o'' \<or> x = CHR ''O'' then integer_literal 8 t
                   else if x = CHR ''b'' \<or> x = CHR ''B'' then integer_literal 2 t
                   else None) of
               None \<Rightarrow> NaN
             | Some n \<Rightarrow> Fin (real n))
      | _ \<Rightarrow> NaN)"

definition StringToNumber :: "string \<Rightarrow> jsnum" where
  "StringToNumber s =
     (let t = trim s
      in case t of
           [] \<Rightarrow> Fin 0
         | c # u \<Rightarrow>
             if c = CHR ''-'' then js_neg (StrUnsignedDecimalLiteral u)
             else if c = CHR ''+'' then StrUnsignedDecimalLiteral u
             else if StrUnsignedDecimalLiteral t \<noteq> NaN then StrUnsignedDecimalLiteral t
             else NonDecimalIntegerLiteral t)"

text \<open>\<open>Number(v)\<close> for a field of the form.\<close>

fun Number :: "js_value \<Rightarrow> jsnum" where
  "Number (Num n) = n"
| "Number (Str s) = StringToNumber s"

text \<open>\<open>a || b\<close> on numbers: \<open>a\<close> unless it is falsy, which 0 and NaN are.\<close>

definition truthy :: "jsnum \<Rightarrow> bool" where
  "truthy a = (a \<noteq> NaN \<and> a \<noteq> Fin 0)"

definition js_or :: "jsnum \<Rightarrow> jsnum \<Rightarrow> jsnum" where
  "js_or a b = (if truthy a then a else b)"

fun Math_floor :: "jsnum \<Rightarrow> jsnum" where
  "Math_floor (Fin x) = Fin (of_int \<lfloor>x\<rfloor>)"
| "Math_floor a = a"

section \<open>The rolling history buffer\<close>

text \<open>\<open>interface HistoryData extends SensorData { time: string }\<close>\<close>

record HistoryData = SensorData +
  time :: string

text \<open>
  The entry \<open>{ time: ..., ...sensorData }\<close>. The formatted wall-clock time is an input
  of the model.
\<close>

definition newEntry :: "string \<Rightarrow> SensorData \<Rightarrow> HistoryData" where
  "newEntry t sensorData =
     \<lparr> mq3 = mq3 sensorData, mq4 = mq4 sensorData, mq8 = mq8 sensorData,
       mq135 = mq135 sensorData, time = t \<rparr>"

text \<open>
  The updater given to \<open>setDataHistory\<close>: \<open>[...prev, newEntry]\<close>, then one
  \<open>shift()\<close> (which removes the first element) if the length exceeds 20.
\<close>

definition append_history :: "HistoryData list \<Rightarrow> HistoryData \<Rightarrow> HistoryData list" where
  "append_history prev entry =
     (let newHistory = prev @ [entry]
      in if length newHistory > 20 then tl newHistory else newHistory)"

text \<open>
  The buffer as the specification words it: \<open>buffer ++ [entry]\<close>, truncated from the
  front to the last 20 elements when its length exceeds 20.
\<close>

definition spec_append :: "'a list \<Rightarrow> 'a \<Rightarrow> 'a list" where
  "spec_append buffer entry =
     (let xs = buffer @ [entry]
      in if length xs > 20 then drop (length xs - 20) xs else xs)"

section \<open>The simulated stream generator\<close>

text \<open>
  One tick calls \<open>Math.random()\<close> five times, in this order: for the spike, for the
  change of \<open>mq3\<close>, and for \<open>mq4\<close>, \<open>mq8\<close> and \<open>mq135\<close>. The five results are an
  input of the model; \<open>Math.random()\<close> returns a number in \<open>[0, 1)\<close>.
\<close>

record draws =
  r_spike :: real
  r_change :: real
  r_mq4 :: real
  r_mq8 :: real
  r_mq135 :: real



text \<open>The variable \<open>changeMQ3\<close> when \<open>newMQ3\<close> is computed.\<close>

definition changeMQ3 :: "SensorData \<Rightarrow> draws \<Rightarrow> jsnum" where
  "changeMQ3 prev d =
     (let isSpike = js_gt (Fin (r_spike d)) (Fin 0.85);
          changeMQ3 = js_sub (js_mul (Fin (r_change d)) (Fin 40)) (Fin 20)
      in if isSpike then (if js_lt (mq3 prev) (Fin 200) then Fin 150 else Fin (- 100))
         else changeMQ3)"

text \<open>The updater given to \<open>setSensorData\<close> by the timer callback.\<close>

definition simulation_tick :: "SensorData \<Rightarrow> draws \<Rightarrow> SensorData" where
  "simulation_tick prev d =
     (let newMQ3 = Math_max (Fin 0) (js_add (mq3 prev) (changeMQ3 prev d));
          newMQ4 = Math_max (Fin 0)
                     (js_add (Fin 200) (js_sub (js_mul (Fin (r_mq4 d)) (Fin 20)) (Fin 10)));
          newMQ8 = Math_max (Fin 0)
                     (js_add (Fin 150) (js_sub (js_mul (Fin (r_mq8 d)) (Fin 15)) (Fin 7.5)));
          newMQ135 = Math_max (Fin 0)
                       (js_add (Fin 300) (js_sub (js_mul (Fin (r_mq135 d)) (Fin 30)) (Fin 15)))
      in \<lparr> mq3 = newMQ3, mq4 = newMQ4, mq8 = newMQ8, mq135 = newMQ135 \<rparr>)"

section \<open>The state of the component\<close>

datatype data_source = simulation | manual

text \<open>
  \<open>ManualInputState\<close>; its fields are named \<open>mq3\<close> to \<open>mq135\<close> in the source, and
  carry the prefix \<open>input_\<close> here to keep them apart from those of \<open>SensorData\<close>.
\<close>

record ManualInputState =
  input_mq3 :: js_value
  input_mq4 :: js_value
  input_mq8 :: js_value
  input_mq135 :: js_value

text \<open>
  The state variables of \<open>App\<close>, and three components for the timers of the browser:
  \<open>intervals\<close> lists the handles of the intervals that are set and not yet cleared,
  \<open>interval\<close> is the variable of that name from the last run of the simulation effect
  (\<open>None\<close> for \<open>undefined\<close>), which its cleanup function has captured, and
  \<open>next_handle\<close> is the handle that the next \<open>setInterval\<close> returns.
\<close>

record app =
  isConnected :: bool
  selectedPort :: string
  selectedModel :: string
  dataSource :: data_source
  sensorData :: SensorData
  dataHistory :: "HistoryData list"
  manualInput :: ManualInputState
  intervals :: "nat list"
  interval :: "nat option"
  next_handle :: nat

definition initial :: app where
  "initial =
     \<lparr> isConnected = False,
       selectedPort = ''COM3'',
       selectedModel = ''random_forest'',
       dataSource = simulation,
       sensorData = \<lparr> mq3 = Fin 45, mq4 = Fin 200, mq8 = Fin 150, mq135 = Fin 300 \<rparr>,
       dataHistory = [],
       manualInput = \<lparr> input_mq3 = Str '''', input_mq4 = Str '''',
                       input_mq8 = Str '''', input_mq135 = Str '''' \<rparr>,
       intervals = [],
       interval = None,
       next_handle = 1 \<rparr>"

subsection \<open>Effects\<close>

text \<open>\<open>clearInterval(interval)\<close>, the cleanup of the simulation effect.\<close>

definition simulation_cleanup :: "app \<Rightarrow> app" where
  "simulation_cleanup s =
     (case interval s of
        None \<Rightarrow> s
      | Some h \<Rightarrow> s\<lparr> intervals := removeAll h (intervals s) \<rparr>)"

text \<open>
  The body of the simulation effect: \<open>interval\<close> is declared, and set by
  \<open>setInterval\<close> only if \<open>isConnected && dataSource === 'simulation'\<close>.
\<close>

definition simulation_effect :: "app \<Rightarrow> app" where
  "simulation_effect s =
     (if isConnected s \<and> dataSource s = simulation
      then s\<lparr> intervals := next_handle s # intervals s,
               interval := Some (next_handle s),
               next_handle := Suc (next_handle s) \<rparr>
      else s\<lparr> interval := None \<rparr>)"

text \<open>The history effect, run at the wall-clock time \<open>t\<close>.\<close>

definition history_effect :: "string \<Rightarrow> app \<Rightarrow> app" where
  "history_effect t s =
     s\<lparr> dataHistory := append_history (dataHistory s) (newEntry t (sensorData s)) \<rparr>"

text \<open>The first render: every effect runs once.\<close>

definition mount :: "string \<Rightarrow> app" where
  "mount t = history_effect t (simulation_effect initial)"

subsection \<open>Event handlers\<close>

definition handleManualInject :: "app \<Rightarrow> app" where
  "handleManualInject s =
     s\<lparr> dataSource := manual,
        isConnected := False,
        sensorData :=
          \<lparr> mq3 = js_or (Number (input_mq3 (manualInput s))) (Fin 0),
            mq4 = js_or (Number (input_mq4 (manualInput s))) (Fin 0),
            mq8 = js_or (Number (input_mq8 (manualInput s))) (Fin 0),
            mq135 = js_or (Number (input_mq135 (manualInput s))) (Fin 0) \<rparr> \<rparr>"

text \<open>\<open>generateRandomManual\<close>, with the four results of \<open>Math.random()\<close> in order.\<close>

definition generateRandomManual :: "real \<Rightarrow> real \<Rightarrow> real \<Rightarrow> real \<Rightarrow> app \<Rightarrow> app" where
  "generateRandomManual r1 r2 r3 r4 s =
     s\<lparr> manualInput :=
          \<lparr> input_mq3 = Num (Math_floor (js_mul (Fin r1) (Fin 500))),
            input_mq4 = Num (Math_floor (js_mul (Fin r2) (Fin 400))),
            input_mq8 = Num (Math_floor (js_mul (Fin r3) (Fin 300))),
            input_mq135 = Num (Math_floor (js_mul (Fin r4) (Fin 600))) \<rparr> \<rparr>"

text \<open>The START button: \<open>setIsConnected(true); setDataSource('simulation')\<close>.\<close>

definition start_click :: "app \<Rightarrow> app" where
  "start_click s = s\<lparr> isConnected := True, dataSource := simulation \<rparr>"

text \<open>The STOP button: \<open>setIsConnected(false)\<close>.\<close>

definition stop_click :: "app \<Rightarrow> app" where
  "stop_click s = s\<lparr> isConnected := False \<rparr>"

text \<open>The callback of the interval: \<open>setSensorData(prev => ...)\<close>.\<close>

definition timer_callback :: "draws \<Rightarrow> app \<Rightarrow> app" where
  "timer_callback d s = s\<lparr> sensorData := simulation_tick (sensorData s) d \<rparr>"

subsection \<open>Events and steps\<close>

datatype field = MQ3 | MQ4 | MQ8 | MQ135

text \<open>\<open>setManualInput({ ...manualInput, mq3: e.target.value })\<close> and its three siblings.\<close>

fun edit_field :: "field \<Rightarrow> string \<Rightarrow> app \<Rightarrow> app" where
  "edit_field MQ3 v s = s\<lparr> manualInput := (manualInput s)\<lparr> input_mq3 := Str v \<rparr> \<rparr>"
| "edit_field MQ4 v s = s\<lparr> manualInput := (manualInput s)\<lparr> input_mq4 := Str v \<rparr> \<rparr>"
| "edit_field MQ8 v s = s\<lparr> manualInput := (manualInput s)\<lparr> input_mq8 := Str v \<rparr> \<rparr>"
| "edit_field MQ135 v s = s\<lparr> manualInput := (manualInput s)\<lparr> input_mq135 := Str v \<rparr> \<rparr>"

datatype event =
    ClickStart
  | ClickStop
  | ClickInject
  | ClickRandom real real real real
  | Edit field string
  | SelectPort string
  | SelectModel string
  | TimerFires nat draws

text \<open>
  The handler of an event; \<open>None\<close> when the event cannot happen in the state: START is
  disabled while connected, STOP while disconnected, and an interval fires only while
  its handle is set.
\<close>

fun handle :: "event \<Rightarrow> app \<Rightarrow> app option" where
  "handle ClickStart s = (if isConnected s then None else Some (start_click s))"
| "handle ClickStop s = (if \<not> isConnected s then None else Some (stop_click s))"
| "handle ClickInject s = Some (handleManualInject s)"
| "handle (ClickRandom r1 r2 r3 r4) s = Some (generateRandomManual r1 r2 r3 r4 s)"
| "handle (Edit f v) s = Some (edit_field f v s)"
| "handle (SelectPort v) s = Some (s\<lparr> selectedPort := v \<rparr>)"
| "handle (SelectModel v) s = Some (s\<lparr> selectedModel := v \<rparr>)"
| "handle (TimerFires h d) s = (if h \<in> set (intervals s) then Some (timer_callback d s) else None)"

text \<open>
  \<open>setSensorData\<close> is called with a new object by the injection and by the timer
  callback only; the history effect, whose dependency is \<open>sensorData\<close>, runs after
  these events.
\<close>

fun sets_sensorData :: "event \<Rightarrow> bool" where
  "sets_sensorData ClickInject = True"
| "sets_sensorData (TimerFires h d) = True"
| "sets_sensorData _ = False"

text \<open>
  The effects after the render that follows a handler: the simulation effect is cleaned
  up and run again if \<open>isConnected\<close> or \<open>dataSource\<close> has changed from the state
  \<open>old\<close> of the render before; the history effect runs if \<open>sensorData\<close> was set.
\<close>

definition run_effects :: "string \<Rightarrow> bool \<Rightarrow> app \<Rightarrow> app \<Rightarrow> app" where
  "run_effects t sensor_set old s =
     (let s = (if isConnected s \<noteq> isConnected old \<or> dataSource s \<noteq> dataSource old
               then simulation_effect (simulation_cleanup s) else s)
      in if sensor_set then history_effect t s else s)"

text \<open>One event at the wall-clock time \<open>t\<close>: its handler, the render and the effects.\<close>

definition step :: "string \<Rightarrow> event \<Rightarrow> app \<Rightarrow> app option" where
  "step t ev s =
     (case handle ev s of
        None \<Rightarrow> None
      | Some s' \<Rightarrow> Some (run_effects t (sets_sensorData ev) s s'))"

text \<open>A run of timed events; \<open>None\<close> if one of them cannot happen.\<close>

fun run :: "(string \<times> event) list \<Rightarrow> app \<Rightarrow> app option" where
  "run [] s = Some s"
| "run ((t, ev) # evs) s =
     (case step t ev s of None \<Rightarrow> None | Some s' \<Rightarrow> run evs s')"

text \<open>The generator is running: the component is connected and in simulation mode.\<close>

definition generating :: "app \<Rightarrow> bool" where
  "generating s = (isConnected s \<and> dataSource s = simulation)"

section \<open>Notions of the specification\<close>

text \<open>A field left blank: a string of white space only.\<close>

fun blank :: "js_value \<Rightarrow> bool" where
  "blank (Str s) = (trim s = [])"
| "blank (Num n) = False"

text \<open>
  The coercion of the injection as the specification words it: a blank or non-numeric
  field is 0, any other field is its number.
\<close>

definition spec_coerce :: "js_value \<Rightarrow> jsnum" where
  "spec_coerce v = (if blank v \<or> Number v = NaN then Fin 0 else Number v)"

text \<open>A channel that is a number and at least 0 (the test \<open>0 <= c\<close>).\<close>

fun non_negative :: "jsnum \<Rightarrow> bool" where
  "non_negative (Fin x) = (0 \<le> x)"
| "non_negative PInf = True"
| "non_negative NInf = False"
| "non_negative NaN = False"

definition non_negative_reading :: "SensorData \<Rightarrow> bool" where
  "non_negative_reading d =
     (non_negative (mq3 d) \<and> non_negative (mq4 d) \<and> non_negative (mq8 d)
      \<and> non_negative (mq135 d))"

text \<open>
  The timers agree with the state: the only interval that is set is the one of the last
  run of the simulation effect, and there is one exactly when the generator is running.
\<close>

definition timer_inv :: "app \<Rightarrow> bool" where
  "timer_inv s =
     (intervals s = (case interval s of None \<Rightarrow> [] | Some h \<Rightarrow> [h])
      \<and> (interval s \<noteq> None) = generating s)"

section \<open>Frames of the effects and of the edits\<close>

lemma sensorData_run_effects:
  "sensorData (run_effects t b old s) = sensorData s"
  by (simp add: run_effects_def Let_def simulation_effect_def simulation_cleanup_def
      history_effect_def split: option.splits)

lemma isConnected_run_effects:
  "isConnected (run_effects t b old s) = isConnected s"
  by (simp add: run_effects_def Let_def simulation_effect_def simulation_cleanup_def
      history_effect_def split: option.splits)

lemma dataSource_run_effects:
  "dataSource (run_effects t b old s) = dataSource s"
  by (simp add: run_effects_def Let_def simulation_effect_def simulation_cleanup_def
      history_effect_def split: option.splits)

lemma manualInput_run_effects:
  "manualInput (run_effects t b old s) = manualInput s"
  by (simp add: run_effects_def Let_def simulation_effect_def simulation_cleanup_def
      history_effect_def split: option.splits)

lemma edit_field_frame:
  "sensorData (edit_field f v s) = sensorData s"
  "dataHistory (edit_field f v s) = dataHistory s"
  "isConnected (edit_field f v s) = isConnected s"
  "dataSource (edit_field f v s) = dataSource s"
  "intervals (edit_field f v s) = intervals s"
  "interval (edit_field f v s) = interval s"
  "next_handle (edit_field f v s) = next_handle s"
  by (cases f; simp)+

lemma dataHistory_run_effects:
  "dataHistory (run_effects t b old s) =
     (if b then append_history (dataHistory s) (newEntry t (sensorData s)) else dataHistory s)"
  by (simp add: run_effects_def Let_def simulation_effect_def simulation_cleanup_def
      history_effect_def split: option.splits)

lemmas run_effects_frame =
  sensorData_run_effects isConnected_run_effects dataSource_run_effects manualInput_run_effects

section \<open>Properties of the classifier\<close>

lemma confidence_value_Fin:
  "confidence_value (data\<lparr>mq3 := Fin p\<rparr>) = Fin (spec_confidence p)"
  by (simp add: confidence_value_def spec_confidence_def js_gt_def js_sub_def Math_min_def min_def)

lemma spec_confidence_range: "85 \<le> spec_confidence p \<and> spec_confidence p \<le> 99.9"
  unfolding spec_confidence_def by (auto simp: min_def)

lemma confidence_value_range:
  assumes "mq3 data \<noteq> NaN"
  shows "\<exists>c. confidence_value data = Fin c \<and> 85 \<le> c \<and> c \<le> 99.9"
proof (cases "mq3 data")
  case NaN
  with assms show ?thesis by simp
next
  case NInf
  then have "confidence_value data = Fin 99.9"
    by (simp add: confidence_value_def js_gt_def js_sub_def Math_min_def)
  moreover have "(85::real) \<le> 99.9" and "(99.9::real) \<le> 99.9" by simp_all
  ultimately show ?thesis by blast
next
  case (Fin p)
  then have "data\<lparr>mq3 := Fin p\<rparr> = data" by simp
  with confidence_value_Fin [where data = data and p = p]
  have "confidence_value data = Fin (spec_confidence p)" by simp
  with spec_confidence_range [of p] show ?thesis by simp
next
  case PInf
  then have "confidence_value data = Fin 99.9"
    by (simp add: confidence_value_def js_gt_def js_sub_def Math_min_def)
  moreover have "(85::real) \<le> 99.9" and "(99.9::real) \<le> 99.9" by simp_all
  ultimately show ?thesis by blast
qed

text \<open>A primary channel that is NaN is classified FRESH, with the confidence "NaN".\<close>

lemma getVerdict_NaN:
  "mq3 data = NaN \<Longrightarrow>
     status (getVerdict data) = FRESH \<and> confidence (getVerdict data) = ''NaN''"
  by (simp add: getVerdict_def confidence_value_def js_gt_def js_sub_def Math_min_def Let_def)











text \<open>
  C1. For every reading, \<open>getVerdict\<close> returns status SPOILED if and only if the
  primary channel \<open>mq3\<close> is strictly greater than 300 (it returns FRESH otherwise); a
  reading whose \<open>mq3\<close> is exactly 300 is classified FRESH.
\<close>

theorem getVerdict_status_threshold:
  "(status (getVerdict data) = SPOILED) = js_gt (mq3 data) (Fin 300)
   \<and> (status (getVerdict data) = FRESH) = (\<not> js_gt (mq3 data) (Fin 300))
   \<and> (status (getVerdict (data\<lparr>mq3 := Fin p\<rparr>)) = SPOILED) = (300 < p)
   \<and> status (getVerdict (data\<lparr>mq3 := Fin 300\<rparr>)) = FRESH"
  by (simp add: getVerdict_def js_gt_def Let_def)



text \<open>
  C8. \<open>getVerdict\<close> is a function of the reading alone and reads only the primary
  channel: two readings with the same \<open>mq3\<close> get the same verdict (status, label,
  confidence and details), whatever their \<open>mq4\<close>, \<open>mq8\<close> and \<open>mq135\<close>.
\<close>

theorem getVerdict_depends_on_mq3_only:
  "mq3 d1 = mq3 d2 \<Longrightarrow> getVerdict d1 = getVerdict d2"
  by (simp add: getVerdict_def confidence_value_def Let_def)

theorem getVerdict_depends_on_mq3_only_witness:
  "mq3 \<lparr>mq3 = Fin 310, mq4 = Fin 1, mq8 = Fin 2, mq135 = Fin 3\<rparr>
     = mq3 \<lparr>mq3 = Fin 310, mq4 = Fin 200, mq8 = NaN, mq135 = PInf\<rparr>
   \<and> getVerdict \<lparr>mq3 = Fin 310, mq4 = Fin 1, mq8 = Fin 2, mq135 = Fin 3\<rparr>
     = getVerdict \<lparr>mq3 = Fin 310, mq4 = Fin 200, mq8 = NaN, mq135 = PInf\<rparr>"
  using getVerdict_depends_on_mq3_only
    [of "\<lparr>mq3 = Fin 310, mq4 = Fin 1, mq8 = Fin 2, mq135 = Fin 3\<rparr>"
        "\<lparr>mq3 = Fin 310, mq4 = Fin 200, mq8 = NaN, mq135 = PInf\<rparr>"]
  by simp

section \<open>Properties of the history buffer\<close>

lemma append_history_code:
  "append_history buf e = (if 20 \<le> length buf then tl buf @ [e] else buf @ [e])"
  by (cases buf) (auto simp: append_history_def Let_def)

lemma append_history_spec:
  "length buf \<le> 20 \<Longrightarrow> append_history buf e = spec_append buf e"
proof (cases "length buf = 20")
  case True
  then obtain b bs where buf: "buf = b # bs" by (cases buf) auto
  with True have "length bs = 19" by simp
  then show ?thesis
    by (simp add: buf append_history_code spec_append_def Let_def)
next
  case False
  assume "length buf \<le> 20"
  with False have "length buf < 20" by simp
  then show ?thesis
    by (simp add: append_history_code spec_append_def Let_def)
qed

lemma length_append_history:
  "length buf \<le> 20 \<Longrightarrow> length (append_history buf e) \<le> 20"
  by (auto simp: append_history_code)

text \<open>Appending a sequence of entries keeps the last 20 of all entries, in order.\<close>

lemma foldl_append_history:
  "length buf \<le> 20 \<Longrightarrow>
     foldl append_history buf es = drop (length (buf @ es) - 20) (buf @ es)"
proof (induction es arbitrary: buf)
  case Nil
  then show ?case by simp
next
  case (Cons e es)
  have len: "length (append_history buf e) \<le> 20"
    using Cons.prems by (rule length_append_history)
  show ?case
  proof (cases "length buf = 20")
    case True
    then obtain b bs where buf: "buf = b # bs" by (cases buf) auto
    with True have l: "length bs = 19" by simp
    have "append_history buf e = bs @ [e]" using True buf by (simp add: append_history_code)
    then show ?thesis using Cons.IH [OF len] buf l by (simp add: drop_Suc)
  next
    case False
    with Cons.prems have "length buf < 20" by simp
    then have "append_history buf e = buf @ [e]" by (simp add: append_history_code)
    then show ?thesis using Cons.IH [OF len] by simp
  qed
qed

lemma foldl_append_history_empty:
  "foldl append_history [] es = drop (length es - 20) es"
  using foldl_append_history [of "[]" es] by simp

text \<open>
  C3. For every buffer (a history of at most 20 entries) and every entry, the append
  of the history effect yields \<open>buffer ++ [entry]\<close>, truncated from the front to its
  last 20 elements when its length exceeds 20, in insertion order (on any list, the
  code appends the entry and drops the first element if the list had 20 elements or
  more); appending 25 entries
  \<open>entry 1, ..., entry 25\<close> to the empty buffer yields the 20 entries
  \<open>entry 6, ..., entry 25\<close> in that order; and every buffer built from the empty one
  by appends holds the last 20 of the appended entries at most, so that its length is at
  most 20.
\<close>

theorem append_history_bounded_fifo:
  "(length buf \<le> 20 \<longrightarrow> append_history buf e = spec_append buf e)
   \<and> append_history buf e = (if 20 \<le> length buf then tl buf @ [e] else buf @ [e])
   \<and> foldl append_history [] (map entry [1..<26]) = map entry [6..<26]
   \<and> length (foldl append_history [] (map entry [1..<26])) = 20
   \<and> foldl append_history [] es = drop (length es - 20) es
   \<and> length (foldl append_history [] es) \<le> 20"
proof -
  have a: "length buf \<le> 20 \<longrightarrow> append_history buf e = spec_append buf e"
    by (simp add: append_history_spec)
  have b: "foldl append_history [] (map entry [1..<26]) = map entry [6..<26]"
    by (simp add: foldl_append_history_empty drop_map)
  have c: "length (foldl append_history [] (map entry [1..<26])) = 20"
    unfolding b by simp
  have d: "foldl append_history [] es = drop (length es - 20) es"
    by (rule foldl_append_history_empty)
  have e: "length (foldl append_history [] es) \<le> 20"
    unfolding d by simp
  from a append_history_code [of buf e] b c d e show ?thesis by blast
qed

theorem append_history_bounded_fifo_witness:
  "length (replicate 20 \<lparr>mq3 = Fin 45, mq4 = Fin 200, mq8 = Fin 150, mq135 = Fin 300,
                          time = ''10:00''\<rparr>) \<le> 20
   \<and> append_history
        (replicate 20 \<lparr>mq3 = Fin 45, mq4 = Fin 200, mq8 = Fin 150, mq135 = Fin 300,
                        time = ''10:00''\<rparr>)
        \<lparr>mq3 = Fin 30, mq4 = Fin 201, mq8 = Fin 149, mq135 = Fin 299, time = ''10:01''\<rparr>
      = replicate 19 \<lparr>mq3 = Fin 45, mq4 = Fin 200, mq8 = Fin 150, mq135 = Fin 300,
                       time = ''10:00''\<rparr>
        @ [\<lparr>mq3 = Fin 30, mq4 = Fin 201, mq8 = Fin 149, mq135 = Fin 299, time = ''10:01''\<rparr>]"
  using append_history_bounded_fifo
    [of "replicate 20 \<lparr>mq3 = Fin 45, mq4 = Fin 200, mq8 = Fin 150, mq135 = Fin 300,
                        time = ''10:00''\<rparr>"
        "\<lparr>mq3 = Fin 30, mq4 = Fin 201, mq8 = Fin 149, mq135 = Fin 299, time = ''10:01''\<rparr>"]
  by (simp add: spec_append_def)

section \<open>Properties of the generator\<close>


lemma changeMQ3_cases:
  "changeMQ3 prev d =
     (if 0.85 < r_spike d then (if js_lt (mq3 prev) (Fin 200) then Fin 150 else Fin (- 100))
      else Fin (r_change d * 40 - 20))"
  by (simp add: changeMQ3_def js_gt_def js_sub_def Let_def)

lemma changeMQ3_finite: "\<exists>x. changeMQ3 prev d = Fin x"
  by (simp add: changeMQ3_cases)

lemma simulation_tick_mq3:
  "mq3 (simulation_tick prev d) = Math_max (Fin 0) (js_add (mq3 prev) (changeMQ3 prev d))"
  by (simp add: simulation_tick_def Let_def)

lemma Math_max_Fin: "Math_max (Fin a) (Fin b) = Fin (max a b)"
  by (simp add: Math_max_def max_def)


lemma simulation_tick_mq4:
  "mq4 (simulation_tick prev d) = Math_max (Fin 0) (Fin (200 + (r_mq4 d * 20 - 10)))"
  by (simp add: simulation_tick_def Let_def js_sub_def)

lemma simulation_tick_mq8:
  "mq8 (simulation_tick prev d) = Math_max (Fin 0) (Fin (150 + (r_mq8 d * 15 - 7.5)))"
  by (simp add: simulation_tick_def Let_def js_sub_def)

lemma simulation_tick_mq135:
  "mq135 (simulation_tick prev d) = Math_max (Fin 0) (Fin (300 + (r_mq135 d * 30 - 15)))"
  by (simp add: simulation_tick_def Let_def js_sub_def)








section \<open>Properties of the manual injection\<close>

lemmas number_defs = StringToNumber_def trim_def is_white_space_def StrUnsignedDecimalLiteral_def
  is_digit_def NonDecimalIntegerLiteral_def integer_literal_def exponent_part_def digit_value_def
  scale10_def Let_def

lemma Number_blank: "blank v \<Longrightarrow> Number v = Fin 0"
  by (cases v) (simp_all add: StringToNumber_def)

lemma js_or_spec_coerce: "js_or (Number v) (Fin 0) = spec_coerce v"
  using Number_blank [of v] by (auto simp: js_or_def truthy_def spec_coerce_def)

lemma StringToNumber_abc: "StringToNumber ''abc'' = NaN"
  by (simp add: number_defs)

lemma StringToNumber_50: "StringToNumber ''50'' = Fin 50"
  by (simp add: number_defs)

lemma StringToNumber_empty: "StringToNumber '''' = Fin 0"
  by (simp add: number_defs)

lemma StringToNumber_10: "StringToNumber ''10'' = Fin 10"
  by (simp add: number_defs)

lemma StringToNumber_minus_5: "StringToNumber ''-5'' = Fin (- 5)"
  by (simp add: number_defs)

text \<open>
  C5. For every state of the manual form, \<open>handleManualInject\<close> replaces the reading
  by the four coerced fields, where a blank or non-numeric field is coerced to 0 and
  any other field to its number; it sets \<open>dataSource\<close> to manual and \<open>isConnected\<close> to
  false and changes no other state variable; the event is always possible (there is no
  error branch), and after the effects of its render the reading, the source and the
  connection flag are as the handler set them, and the history has the new reading
  appended. The fields "abc", "50", "" and "10"
  give the reading \<open>{0, 50, 0, 10}\<close> with \<open>isConnected = false\<close> and
  \<open>dataSource = manual\<close>.
\<close>

theorem handleManualInject_coerces:
  "handleManualInject s =
     s\<lparr> dataSource := manual, isConnected := False,
        sensorData := \<lparr> mq3 = spec_coerce (input_mq3 (manualInput s)),
                        mq4 = spec_coerce (input_mq4 (manualInput s)),
                        mq8 = spec_coerce (input_mq8 (manualInput s)),
                        mq135 = spec_coerce (input_mq135 (manualInput s)) \<rparr> \<rparr>
   \<and> (\<exists>s'. step t ClickInject s = Some s'
          \<and> sensorData s' = sensorData (handleManualInject s)
          \<and> dataSource s' = manual \<and> isConnected s' = False
          \<and> dataHistory s' = append_history (dataHistory s)
                (newEntry t (sensorData (handleManualInject s))))
   \<and> spec_coerce (Str ''abc'') = Fin 0 \<and> spec_coerce (Str '''') = Fin 0
   \<and> sensorData (handleManualInject
         (s\<lparr> manualInput := \<lparr> input_mq3 = Str ''abc'', input_mq4 = Str ''50'',
                               input_mq8 = Str '''', input_mq135 = Str ''10'' \<rparr> \<rparr>))
       = \<lparr> mq3 = Fin 0, mq4 = Fin 50, mq8 = Fin 0, mq135 = Fin 10 \<rparr>
   \<and> isConnected (handleManualInject
         (s\<lparr> manualInput := \<lparr> input_mq3 = Str ''abc'', input_mq4 = Str ''50'',
                               input_mq8 = Str '''', input_mq135 = Str ''10'' \<rparr> \<rparr>)) = False
   \<and> dataSource (handleManualInject
         (s\<lparr> manualInput := \<lparr> input_mq3 = Str ''abc'', input_mq4 = Str ''50'',
                               input_mq8 = Str '''', input_mq135 = Str ''10'' \<rparr> \<rparr>)) = manual"
proof -
  have a: "handleManualInject s =
     s\<lparr> dataSource := manual, isConnected := False,
        sensorData := \<lparr> mq3 = spec_coerce (input_mq3 (manualInput s)),
                        mq4 = spec_coerce (input_mq4 (manualInput s)),
                        mq8 = spec_coerce (input_mq8 (manualInput s)),
                        mq135 = spec_coerce (input_mq135 (manualInput s)) \<rparr> \<rparr>"
    by (simp add: handleManualInject_def js_or_spec_coerce)
  have b: "\<exists>s'. step t ClickInject s = Some s'
          \<and> sensorData s' = sensorData (handleManualInject s)
          \<and> dataSource s' = manual \<and> isConnected s' = False
          \<and> dataHistory s' = append_history (dataHistory s)
                (newEntry t (sensorData (handleManualInject s)))"
    by (simp add: step_def run_effects_frame dataHistory_run_effects)
       (simp add: handleManualInject_def)
  have c: "spec_coerce (Str ''abc'') = Fin 0" "spec_coerce (Str '''') = Fin 0"
    by (simp_all add: spec_coerce_def StringToNumber_abc StringToNumber_empty)
  have d: "sensorData (handleManualInject
         (s\<lparr> manualInput := \<lparr> input_mq3 = Str ''abc'', input_mq4 = Str ''50'',
                               input_mq8 = Str '''', input_mq135 = Str ''10'' \<rparr> \<rparr>))
       = \<lparr> mq3 = Fin 0, mq4 = Fin 50, mq8 = Fin 0, mq135 = Fin 10 \<rparr>"
    by (simp add: handleManualInject_def StringToNumber_abc StringToNumber_50 StringToNumber_empty StringToNumber_10
        js_or_def truthy_def)
  have e: "isConnected (handleManualInject
         (s\<lparr> manualInput := \<lparr> input_mq3 = Str ''abc'', input_mq4 = Str ''50'',
                               input_mq8 = Str '''', input_mq135 = Str ''10'' \<rparr> \<rparr>)) = False"
    "dataSource (handleManualInject
         (s\<lparr> manualInput := \<lparr> input_mq3 = Str ''abc'', input_mq4 = Str ''50'',
                               input_mq8 = Str '''', input_mq135 = Str ''10'' \<rparr> \<rparr>)) = manual"
    by (simp_all add: handleManualInject_def)
  from a b c d e show ?thesis by blast
qed





section \<open>Non-negative channels\<close>

lemma Math_max_0_not_below: "\<not> js_lt (Math_max (Fin 0) v) (Fin 0)"
  by (cases v) (simp_all add: Math_max_def)

lemma simulation_tick_not_below:
  "\<not> js_lt (mq3 (simulation_tick prev d)) (Fin 0)"
  "\<not> js_lt (mq4 (simulation_tick prev d)) (Fin 0)"
  "\<not> js_lt (mq8 (simulation_tick prev d)) (Fin 0)"
  "\<not> js_lt (mq135 (simulation_tick prev d)) (Fin 0)"
  by (simp_all add: simulation_tick_def Let_def Math_max_0_not_below)

lemma non_negative_Math_max: "v \<noteq> NaN \<Longrightarrow> non_negative (Math_max (Fin 0) v)"
  by (cases v) (simp_all add: Math_max_def)

lemma js_add_Fin_not_NaN: "a \<noteq> NaN \<Longrightarrow> js_add a (Fin x) \<noteq> NaN"
  by (cases a) simp_all

lemma simulation_tick_non_negative:
  assumes "mq3 prev \<noteq> NaN"
  shows "non_negative_reading (simulation_tick prev d)"
proof -
  obtain x where x: "changeMQ3 prev d = Fin x" using changeMQ3_finite by blast
  have "js_add (mq3 prev) (changeMQ3 prev d) \<noteq> NaN"
    unfolding x using assms by (rule js_add_Fin_not_NaN)
  then have "non_negative (mq3 (simulation_tick prev d))"
    unfolding simulation_tick_mq3 by (rule non_negative_Math_max)
  moreover have "non_negative (mq4 (simulation_tick prev d))"
    unfolding simulation_tick_mq4 by (simp add: Math_max_Fin)
  moreover have "non_negative (mq8 (simulation_tick prev d))"
    unfolding simulation_tick_mq8 by (simp add: Math_max_Fin)
  moreover have "non_negative (mq135 (simulation_tick prev d))"
    unfolding simulation_tick_mq135 by (simp add: Math_max_Fin)
  ultimately show ?thesis by (simp add: non_negative_reading_def)
qed

lemma non_negative_not_NaN: "non_negative v \<Longrightarrow> v \<noteq> NaN"
  by (cases v) simp_all

lemma step_sensorData:
  "step t ev s = Some s' \<Longrightarrow>
     sensorData s' =
       (case ev of
          ClickInject \<Rightarrow> sensorData (handleManualInject s)
        | TimerFires h d \<Rightarrow> simulation_tick (sensorData s) d
        | _ \<Rightarrow> sensorData s)"
  by (cases ev)
     (auto simp: step_def run_effects_frame edit_field_frame start_click_def stop_click_def
       generateRandomManual_def timer_callback_def split: if_splits)

lemma step_no_inject_non_negative:
  assumes "step t ev s = Some s'" and "ev \<noteq> ClickInject"
    and "non_negative_reading (sensorData s)"
  shows "non_negative_reading (sensorData s')"
proof (cases ev)
  case (TimerFires h d)
  from assms(3) have "mq3 (sensorData s) \<noteq> NaN"
    by (simp add: non_negative_reading_def non_negative_not_NaN)
  then show ?thesis
    using step_sensorData [OF assms(1)] TimerFires by (simp add: simulation_tick_non_negative)
qed (use assms step_sensorData [OF assms(1)] in simp_all)

lemma run_no_inject_non_negative:
  "run evs s = Some s' \<Longrightarrow> ClickInject \<notin> snd ` set evs \<Longrightarrow>
     non_negative_reading (sensorData s) \<Longrightarrow> non_negative_reading (sensorData s')"
proof (induction evs arbitrary: s)
  case Nil
  then show ?case by simp
next
  case (Cons a evs)
  obtain t ev where a: "a = (t, ev)" by (cases a)
  from Cons.prems(1) a obtain s1 where s1: "step t ev s = Some s1" and r: "run evs s1 = Some s'"
    by (auto split: option.splits)
  from Cons.prems(2) a have ne: "ev \<noteq> ClickInject" and rest: "ClickInject \<notin> snd ` set evs"
    by auto
  have "non_negative_reading (sensorData s1)"
    using s1 ne Cons.prems(3) by (rule step_no_inject_non_negative)
  with r rest show ?case by (rule Cons.IH)
qed

lemma sensorData_mount:
  "sensorData (mount t) = \<lparr> mq3 = Fin 45, mq4 = Fin 200, mq8 = Fin 150, mq135 = Fin 300 \<rparr>"
  by (simp add: mount_def history_effect_def simulation_effect_def initial_def)

lemma non_negative_js_or: "non_negative (js_or n (Fin 0)) = (\<not> js_lt n (Fin 0))"
  by (cases n) (auto simp: js_or_def truthy_def)

lemma js_or_negative: "js_lt n (Fin 0) \<Longrightarrow> js_or n (Fin 0) = n"
  by (cases n) (auto simp: js_or_def truthy_def)

text \<open>
  C6, as claimed, fails: the injection does not clamp. After the string "-5" is typed
  into the first field and injected, the primary channel of the reading is -5.
\<close>

theorem injection_keeps_negative_counterexample:
  "map_option (mq3 \<circ> sensorData)
     (run [(''10:00'', Edit MQ3 ''-5''), (''10:01'', ClickInject)] (mount ''09:59''))
     = Some (Fin (- 5))
   \<and> js_lt (Fin (- 5)) (Fin 0)"
  by (simp add: step_def run_effects_def mount_def initial_def handleManualInject_def
      history_effect_def simulation_effect_def simulation_cleanup_def
      StringToNumber_minus_5 js_or_def truthy_def)

text \<open>
  C6, amended. A tick of the generator never produces a channel below 0, for any
  previous reading and any draws, and produces four numbers that are at least 0 when
  the previous primary channel is a number; hence in every state reached from the first
  render without an injection every channel is a number that is at least 0. The
  injection does not clamp: an injected channel is a number that is at least 0 exactly
  when the number of its field is not below 0, and a field whose number is below 0 is
  injected unchanged.
\<close>

theorem channels_non_negative_without_negative_injection:
  "\<not> js_lt (mq3 (simulation_tick prev d)) (Fin 0)
   \<and> \<not> js_lt (mq4 (simulation_tick prev d)) (Fin 0)
   \<and> \<not> js_lt (mq8 (simulation_tick prev d)) (Fin 0)
   \<and> \<not> js_lt (mq135 (simulation_tick prev d)) (Fin 0)
   \<and> (mq3 prev \<noteq> NaN \<longrightarrow> non_negative_reading (simulation_tick prev d))
   \<and> (run evs (mount t0) = Some s \<and> ClickInject \<notin> snd ` set evs
        \<longrightarrow> non_negative_reading (sensorData s))
   \<and> non_negative (mq3 (sensorData (handleManualInject s0)))
        = (\<not> js_lt (Number (input_mq3 (manualInput s0))) (Fin 0))
   \<and> non_negative (mq4 (sensorData (handleManualInject s0)))
        = (\<not> js_lt (Number (input_mq4 (manualInput s0))) (Fin 0))
   \<and> non_negative (mq8 (sensorData (handleManualInject s0)))
        = (\<not> js_lt (Number (input_mq8 (manualInput s0))) (Fin 0))
   \<and> non_negative (mq135 (sensorData (handleManualInject s0)))
        = (\<not> js_lt (Number (input_mq135 (manualInput s0))) (Fin 0))
   \<and> (js_lt (Number (input_mq3 (manualInput s0))) (Fin 0)
        \<longrightarrow> mq3 (sensorData (handleManualInject s0)) = Number (input_mq3 (manualInput s0)))
   \<and> (js_lt (Number (input_mq4 (manualInput s0))) (Fin 0)
        \<longrightarrow> mq4 (sensorData (handleManualInject s0)) = Number (input_mq4 (manualInput s0)))
   \<and> (js_lt (Number (input_mq8 (manualInput s0))) (Fin 0)
        \<longrightarrow> mq8 (sensorData (handleManualInject s0)) = Number (input_mq8 (manualInput s0)))
   \<and> (js_lt (Number (input_mq135 (manualInput s0))) (Fin 0)
        \<longrightarrow> mq135 (sensorData (handleManualInject s0)) = Number (input_mq135 (manualInput s0)))"
proof -
  have reach: "run evs (mount t0) = Some s \<and> ClickInject \<notin> snd ` set evs
        \<longrightarrow> non_negative_reading (sensorData s)"
  proof (intro impI, elim conjE)
    assume r: "run evs (mount t0) = Some s" and n: "ClickInject \<notin> snd ` set evs"
    have "non_negative_reading (sensorData (mount t0))"
      by (simp add: sensorData_mount non_negative_reading_def)
    with r n show "non_negative_reading (sensorData s)" by (rule run_no_inject_non_negative)
  qed
  have inj: "non_negative (mq3 (sensorData (handleManualInject s0)))
        = (\<not> js_lt (Number (input_mq3 (manualInput s0))) (Fin 0))"
    "non_negative (mq4 (sensorData (handleManualInject s0)))
        = (\<not> js_lt (Number (input_mq4 (manualInput s0))) (Fin 0))"
    "non_negative (mq8 (sensorData (handleManualInject s0)))
        = (\<not> js_lt (Number (input_mq8 (manualInput s0))) (Fin 0))"
    "non_negative (mq135 (sensorData (handleManualInject s0)))
        = (\<not> js_lt (Number (input_mq135 (manualInput s0))) (Fin 0))"
    by (simp_all add: handleManualInject_def non_negative_js_or)
  have neg: "js_lt (Number (input_mq3 (manualInput s0))) (Fin 0)
        \<longrightarrow> mq3 (sensorData (handleManualInject s0)) = Number (input_mq3 (manualInput s0))"
    "js_lt (Number (input_mq4 (manualInput s0))) (Fin 0)
        \<longrightarrow> mq4 (sensorData (handleManualInject s0)) = Number (input_mq4 (manualInput s0))"
    "js_lt (Number (input_mq8 (manualInput s0))) (Fin 0)
        \<longrightarrow> mq8 (sensorData (handleManualInject s0)) = Number (input_mq8 (manualInput s0))"
    "js_lt (Number (input_mq135 (manualInput s0))) (Fin 0)
        \<longrightarrow> mq135 (sensorData (handleManualInject s0)) = Number (input_mq135 (manualInput s0))"
    by (simp_all add: handleManualInject_def js_or_negative)
  from simulation_tick_not_below [of prev d] simulation_tick_non_negative [of prev d]
    reach inj neg
  show ?thesis by blast
qed
theorem channels_non_negative_without_negative_injection_witness:
  "mq3 \<lparr>mq3 = Fin 45, mq4 = Fin 200, mq8 = Fin 150, mq135 = Fin 300\<rparr> \<noteq> NaN
   \<and> non_negative_reading
        (simulation_tick \<lparr>mq3 = Fin 45, mq4 = Fin 200, mq8 = Fin 150, mq135 = Fin 300\<rparr>
           \<lparr>r_spike = 0.2, r_change = 0, r_mq4 = 0.5, r_mq8 = 0.5, r_mq135 = 0.5\<rparr>)
   \<and> run [(''10:00'', ClickStart),
           (''10:01'', TimerFires 1 \<lparr>r_spike = 0.2, r_change = 0, r_mq4 = 0.5, r_mq8 = 0.5,
                                       r_mq135 = 0.5\<rparr>)] (mount ''09:59'') \<noteq> None
   \<and> ClickInject \<notin> snd ` set [(''10:00'', ClickStart),
           (''10:01'', TimerFires 1 \<lparr>r_spike = 0.2, r_change = 0, r_mq4 = 0.5, r_mq8 = 0.5,
                                       r_mq135 = 0.5\<rparr>)]
   \<and> non_negative_reading (sensorData (the (run [(''10:00'', ClickStart),
           (''10:01'', TimerFires 1 \<lparr>r_spike = 0.2, r_change = 0, r_mq4 = 0.5, r_mq8 = 0.5,
                                       r_mq135 = 0.5\<rparr>)] (mount ''09:59''))))
   \<and> js_lt (Number (input_mq3 (manualInput (edit_field MQ3 ''-5'' initial)))) (Fin 0)
   \<and> mq3 (sensorData (handleManualInject (edit_field MQ3 ''-5'' initial))) = Fin (- 5)"
proof -
  let ?prev = "\<lparr>mq3 = Fin 45, mq4 = Fin 200, mq8 = Fin 150, mq135 = Fin 300\<rparr>"
  let ?d = "\<lparr>r_spike = 0.2, r_change = 0, r_mq4 = 0.5, r_mq8 = 0.5, r_mq135 = 0.5\<rparr>"
  let ?evs = "[(''10:00'', ClickStart), (''10:01'', TimerFires 1 ?d)]"
  let ?s0 = "edit_field MQ3 ''-5'' initial"
  have ok: "run ?evs (mount ''09:59'') \<noteq> None"
    by (simp add: step_def run_effects_def mount_def initial_def start_click_def
        timer_callback_def history_effect_def simulation_effect_def simulation_cleanup_def)
  then have some: "run ?evs (mount ''09:59'') = Some (the (run ?evs (mount ''09:59'')))"
    by simp
  have no: "ClickInject \<notin> snd ` set ?evs" by simp
  have p: "mq3 ?prev \<noteq> NaN" by simp
  have neg: "js_lt (Number (input_mq3 (manualInput ?s0))) (Fin 0)"
    by (simp add: StringToNumber_minus_5)
  note t = channels_non_negative_without_negative_injection
    [where prev = ?prev and d = ?d and evs = ?evs and ?t0.0 = "''09:59''"
       and s = "the (run ?evs (mount ''09:59''))" and ?s0.0 = ?s0]
  from t p have a: "non_negative_reading (simulation_tick ?prev ?d)" by blast
  from t some no have b: "non_negative_reading (sensorData (the (run ?evs (mount ''09:59''))))"
    by blast
  from t neg have "mq3 (sensorData (handleManualInject ?s0)) = Number (input_mq3 (manualInput ?s0))"
    by blast
  then have c: "mq3 (sensorData (handleManualInject ?s0)) = Fin (- 5)"
    by (simp add: StringToNumber_minus_5)
  from p a ok no b neg c show ?thesis by blast
qed

section \<open>The lifecycle of the timer\<close>

lemma timer_inv_mount: "timer_inv (mount t)"
  by (simp add: timer_inv_def generating_def mount_def history_effect_def
      simulation_effect_def initial_def)

lemma timer_inv_history_effect: "timer_inv (history_effect t s) = timer_inv s"
  by (simp add: timer_inv_def generating_def history_effect_def)

lemma timer_inv_effect_after_cleanup:
  assumes "intervals s = (case interval s of None \<Rightarrow> [] | Some h \<Rightarrow> [h])"
  shows "timer_inv (simulation_effect (simulation_cleanup s))"
proof (cases "interval s")
  case None
  with assms show ?thesis
    by (simp add: timer_inv_def generating_def simulation_effect_def simulation_cleanup_def)
next
  case (Some h)
  with assms show ?thesis
    by (simp add: timer_inv_def generating_def simulation_effect_def simulation_cleanup_def)
qed

text \<open>A handler does not touch the timers; the effects after it restore the invariant.\<close>

lemma timer_inv_run_effects:
  assumes "timer_inv s" and "intervals s' = intervals s" and "interval s' = interval s"
  shows "timer_inv (run_effects t b s s')"
proof (cases "isConnected s' \<noteq> isConnected s \<or> dataSource s' \<noteq> dataSource s")
  case True
  from assms have "intervals s' = (case interval s' of None \<Rightarrow> [] | Some h \<Rightarrow> [h])"
    by (simp add: timer_inv_def)
  then have "timer_inv (simulation_effect (simulation_cleanup s'))"
    by (rule timer_inv_effect_after_cleanup)
  with True show ?thesis by (simp add: run_effects_def Let_def timer_inv_history_effect)
next
  case False
  then have "generating s' = generating s" by (simp add: generating_def)
  with assms have "timer_inv s'" by (simp add: timer_inv_def)
  with False show ?thesis by (simp add: run_effects_def Let_def timer_inv_history_effect)
qed

lemma handle_timers:
  "handle ev s = Some s' \<Longrightarrow> intervals s' = intervals s \<and> interval s' = interval s"
  by (cases ev)
     (auto simp: edit_field_frame start_click_def stop_click_def handleManualInject_def
       generateRandomManual_def timer_callback_def split: if_splits)

lemma timer_inv_step:
  assumes "step t ev s = Some s'" and "timer_inv s"
  shows "timer_inv s'"
proof -
  from assms(1) obtain s1 where h: "handle ev s = Some s1"
    and s': "s' = run_effects t (sets_sensorData ev) s s1"
    by (auto simp: step_def split: option.splits)
  from handle_timers [OF h] assms(2) show ?thesis
    unfolding s' by (intro timer_inv_run_effects) simp_all
qed

lemma timer_inv_run:
  "run evs s = Some s' \<Longrightarrow> timer_inv s \<Longrightarrow> timer_inv s'"
proof (induction evs arbitrary: s)
  case Nil
  then show ?case by simp
next
  case (Cons a evs)
  obtain t ev where a: "a = (t, ev)" by (cases a)
  from Cons.prems(1) a obtain s1 where s1: "step t ev s = Some s1" and r: "run evs s1 = Some s'"
    by (auto split: option.splits)
  from s1 Cons.prems(2) have "timer_inv s1" by (rule timer_inv_step)
  with r show ?case by (rule Cons.IH)
qed

lemma timer_inv_no_timer:
  assumes "timer_inv s" and "\<not> generating s"
  shows "intervals s = []"
  using assms by (auto simp: timer_inv_def)

lemma timer_inv_at_most_one: "timer_inv s \<Longrightarrow> length (intervals s) \<le> 1"
  by (auto simp: timer_inv_def split: option.splits)

lemma generating_step:
  "step t ev s = Some s' \<Longrightarrow> ev \<noteq> ClickStart \<Longrightarrow> \<not> generating s \<Longrightarrow> \<not> generating s'"
  by (cases ev)
     (auto simp: step_def generating_def run_effects_frame edit_field_frame stop_click_def
       handleManualInject_def generateRandomManual_def timer_callback_def split: if_splits)

text \<open>
  From a state in which the generator is off, a run without a click on START contains
  no firing of a timer, and it changes the reading only by an injection.
\<close>

lemma run_stopped:
  "run evs s = Some s' \<Longrightarrow> timer_inv s \<Longrightarrow> \<not> generating s \<Longrightarrow>
     ClickStart \<notin> snd ` set evs \<Longrightarrow>
     (\<forall>t h d. (t, TimerFires h d) \<notin> set evs)
     \<and> \<not> generating s'
     \<and> (ClickInject \<notin> snd ` set evs \<longrightarrow>
          sensorData s' = sensorData s \<and> dataHistory s' = dataHistory s)"
proof (induction evs arbitrary: s)
  case Nil
  then show ?case by simp
next
  case (Cons a evs)
  obtain t ev where a: "a = (t, ev)" by (cases a)
  from Cons.prems(1) a obtain s1 where s1: "step t ev s = Some s1" and r: "run evs s1 = Some s'"
    by (auto split: option.splits)
  from Cons.prems(4) a have ne: "ev \<noteq> ClickStart" and rest: "ClickStart \<notin> snd ` set evs"
    by auto
  have inv1: "timer_inv s1" using s1 Cons.prems(2) by (rule timer_inv_step)
  have off1: "\<not> generating s1" using s1 ne Cons.prems(3) by (rule generating_step)
  note ih = Cons.IH [OF r inv1 off1 rest]
  have none: "intervals s = []" using Cons.prems(2,3) by (rule timer_inv_no_timer)
  have not_timer: "ev \<noteq> TimerFires h d" for h d
    using s1 none by (auto simp: step_def)
  have same: "sensorData s1 = sensorData s \<and> dataHistory s1 = dataHistory s"
    if "ev \<noteq> ClickInject"
    using s1 that not_timer ne
    by (cases ev)
       (auto simp: step_def run_effects_def Let_def edit_field_frame stop_click_def
         generateRandomManual_def simulation_effect_def simulation_cleanup_def
         split: if_splits option.splits)
  from ih a not_timer same show ?case by auto
qed
text \<open>
  C7. In every state reached from the first render, at most one interval is set, and
  one is set exactly when the component is connected in simulation mode; so whenever
  it is disconnected or in manual mode no interval is set and no timer can fire. After
  a click on STOP and after an injection no interval is set (the cleanup has cleared
  it). From a state that is disconnected or in manual mode, in every run without a
  click on START no timer fires, however many events it has, and without an injection
  the reading and the history stay as they are.
\<close>

theorem timer_cancelled_when_not_generating:
  assumes "run evs (mount t0) = Some s"
  shows "length (intervals s) \<le> 1
    \<and> (intervals s \<noteq> []) = (isConnected s \<and> dataSource s = simulation)
    \<and> (\<not> isConnected s \<or> dataSource s = manual \<longrightarrow>
          intervals s = [] \<and> step t (TimerFires h d) s = None)
    \<and> (\<forall>s1. step t ClickStop s = Some s1 \<longrightarrow> intervals s1 = [])
    \<and> (\<forall>s1. step t ClickInject s = Some s1 \<longrightarrow> intervals s1 = [])
    \<and> ((\<not> isConnected s \<or> dataSource s = manual) \<and> run evs' s = Some s'
          \<and> ClickStart \<notin> snd ` set evs' \<longrightarrow>
          (\<forall>t h d. (t, TimerFires h d) \<notin> set evs')
          \<and> (ClickInject \<notin> snd ` set evs' \<longrightarrow>
                sensorData s' = sensorData s \<and> dataHistory s' = dataHistory s))"
proof -
  have inv: "timer_inv s" using assms timer_inv_mount by (rule timer_inv_run)
  have one: "length (intervals s) \<le> 1" using inv by (rule timer_inv_at_most_one)
  have iff: "(intervals s \<noteq> []) = (isConnected s \<and> dataSource s = simulation)"
    using inv by (auto simp: timer_inv_def generating_def split: option.splits)
  have off: "\<not> isConnected s \<or> dataSource s = manual \<longrightarrow>
          intervals s = [] \<and> step t (TimerFires h d) s = None"
  proof
    assume "\<not> isConnected s \<or> dataSource s = manual"
    then have "\<not> generating s" by (auto simp: generating_def)
    with inv have "intervals s = []" by (rule timer_inv_no_timer)
    then show "intervals s = [] \<and> step t (TimerFires h d) s = None"
      by (simp add: step_def)
  qed
  have stop: "\<forall>s1. step t ClickStop s = Some s1 \<longrightarrow> intervals s1 = []"
  proof (intro allI impI)
    fix s1 assume st: "step t ClickStop s = Some s1"
    then have "timer_inv s1" using inv by (rule timer_inv_step)
    moreover from st have "\<not> generating s1"
      by (auto simp: step_def generating_def run_effects_frame stop_click_def split: if_splits)
    ultimately show "intervals s1 = []" by (rule timer_inv_no_timer)
  qed
  have inject: "\<forall>s1. step t ClickInject s = Some s1 \<longrightarrow> intervals s1 = []"
  proof (intro allI impI)
    fix s1 assume st: "step t ClickInject s = Some s1"
    then have "timer_inv s1" using inv by (rule timer_inv_step)
    moreover from st have "\<not> generating s1"
      by (auto simp: step_def generating_def run_effects_frame handleManualInject_def)
    ultimately show "intervals s1 = []" by (rule timer_inv_no_timer)
  qed
  have later: "(\<not> isConnected s \<or> dataSource s = manual) \<and> run evs' s = Some s'
          \<and> ClickStart \<notin> snd ` set evs' \<longrightarrow>
          (\<forall>t h d. (t, TimerFires h d) \<notin> set evs')
          \<and> (ClickInject \<notin> snd ` set evs' \<longrightarrow>
                sensorData s' = sensorData s \<and> dataHistory s' = dataHistory s)"
  proof (intro impI, elim conjE)
    assume o: "\<not> isConnected s \<or> dataSource s = manual" and r: "run evs' s = Some s'"
      and n: "ClickStart \<notin> snd ` set evs'"
    from o have "\<not> generating s" by (auto simp: generating_def)
    from run_stopped [OF r inv this n]
    show "(\<forall>t h d. (t, TimerFires h d) \<notin> set evs')
          \<and> (ClickInject \<notin> snd ` set evs' \<longrightarrow>
                sensorData s' = sensorData s \<and> dataHistory s' = dataHistory s)"
      by blast
  qed
  from one iff off stop inject later show ?thesis by blast
qed

theorem timer_cancelled_when_not_generating_witness:
  "run [(''10:00'', ClickStart)] (mount ''09:59'') \<noteq> None
   \<and> intervals (the (run [(''10:00'', ClickStart)] (mount ''09:59''))) = [1]
   \<and> step ''10:02'' ClickStop (the (run [(''10:00'', ClickStart)] (mount ''09:59''))) \<noteq> None
   \<and> intervals (the (step ''10:02'' ClickStop
        (the (run [(''10:00'', ClickStart)] (mount ''09:59''))))) = []
   \<and> intervals (the (step ''10:02'' ClickInject
        (the (run [(''10:00'', ClickStart)] (mount ''09:59''))))) = []
   \<and> run [(''10:00'', ClickStart), (''10:02'', ClickStop)] (mount ''09:59'') \<noteq> None
   \<and> \<not> isConnected (the (run [(''10:00'', ClickStart), (''10:02'', ClickStop)] (mount ''09:59'')))
   \<and> step ''10:03''
        (TimerFires 1 \<lparr>r_spike = 0.2, r_change = 0, r_mq4 = 0.5, r_mq8 = 0.5, r_mq135 = 0.5\<rparr>)
        (the (run [(''10:00'', ClickStart), (''10:02'', ClickStop)] (mount ''09:59''))) = None
   \<and> run [(''10:04'', Edit MQ3 ''7''), (''10:05'', ClickRandom 0.1 0.2 0.3 0.4)]
        (the (run [(''10:00'', ClickStart), (''10:02'', ClickStop)] (mount ''09:59''))) \<noteq> None
   \<and> sensorData (the (run [(''10:04'', Edit MQ3 ''7''), (''10:05'', ClickRandom 0.1 0.2 0.3 0.4)]
        (the (run [(''10:00'', ClickStart), (''10:02'', ClickStop)] (mount ''09:59'')))))
      = \<lparr>mq3 = Fin 45, mq4 = Fin 200, mq8 = Fin 150, mq135 = Fin 300\<rparr>"
proof -
  let ?d = "\<lparr>r_spike = 0.2, r_change = 0, r_mq4 = 0.5, r_mq8 = 0.5, r_mq135 = 0.5\<rparr>"
  let ?on = "[(''10:00'', ClickStart)]"
  let ?off = "[(''10:00'', ClickStart), (''10:02'', ClickStop)]"
  let ?later = "[(''10:04'', Edit MQ3 ''7''), (''10:05'', ClickRandom 0.1 0.2 0.3 0.4)]"
  let ?s_on = "the (run ?on (mount ''09:59''))"
  let ?s_off = "the (run ?off (mount ''09:59''))"
  note defs = step_def run_effects_def mount_def initial_def start_click_def stop_click_def
    handleManualInject_def generateRandomManual_def
    history_effect_def simulation_effect_def simulation_cleanup_def
  have on: "run ?on (mount ''09:59'') \<noteq> None" by (simp add: defs)
  then have on': "run ?on (mount ''09:59'') = Some ?s_on" by simp
  have off: "run ?off (mount ''09:59'') \<noteq> None" by (simp add: defs)
  then have off': "run ?off (mount ''09:59'') = Some ?s_off" by simp
  have set_on: "intervals ?s_on = [1]" by (simp add: defs)
  have stop: "step ''10:02'' ClickStop ?s_on \<noteq> None" by (simp add: defs)
  have inj: "step ''10:02'' ClickInject ?s_on \<noteq> None" by (simp add: step_def)
  have disc: "\<not> isConnected ?s_off" by (simp add: defs)
  have later: "run ?later ?s_off \<noteq> None" by (simp add: defs)
  have reading: "sensorData ?s_off = \<lparr>mq3 = Fin 45, mq4 = Fin 200, mq8 = Fin 150, mq135 = Fin 300\<rparr>"
    by (simp add: defs)
  note a = timer_cancelled_when_not_generating [OF on', where t = "''10:02''"]
  note b = timer_cancelled_when_not_generating [OF off', where t = "''10:03''" and h = 1
      and d = ?d and evs' = ?later and s' = "the (run ?later ?s_off)"]
  from a stop have c1: "intervals (the (step ''10:02'' ClickStop ?s_on)) = []" by fastforce
  from a inj have c2: "intervals (the (step ''10:02'' ClickInject ?s_on)) = []" by fastforce
  from b disc have c3: "step ''10:03'' (TimerFires 1 ?d) ?s_off = None" by blast
  have no_start: "ClickStart \<notin> snd ` set ?later" and no_inject: "ClickInject \<notin> snd ` set ?later"
    by simp_all
  from later have later': "run ?later ?s_off = Some (the (run ?later ?s_off))" by simp
  from b disc later' no_start no_inject
  have "sensorData (the (run ?later ?s_off)) = sensorData ?s_off" by blast
  with reading have c4: "sensorData (the (run ?later ?s_off))
      = \<lparr>mq3 = Fin 45, mq4 = Fin 200, mq8 = Fin 150, mq135 = Fin 300\<rparr>" by simp
  from on set_on stop c1 c2 off disc c3 later c4 show ?thesis by blast
qed

section \<open>Reachable readings are numbers\<close>

lemma js_or_not_NaN: "js_or n (Fin 0) \<noteq> NaN"
  by (simp add: js_or_def truthy_def)

lemma Math_max_not_NaN: "v \<noteq> NaN \<Longrightarrow> Math_max (Fin 0) v \<noteq> NaN"
  by (simp add: Math_max_def)

lemma step_mq3_not_NaN:
  assumes "step t ev s = Some s'" and "mq3 (sensorData s) \<noteq> NaN"
  shows "mq3 (sensorData s') \<noteq> NaN"
proof (cases ev)
  case ClickInject
  then show ?thesis
    using step_sensorData [OF assms(1)] by (simp add: handleManualInject_def js_or_not_NaN)
next
  case (TimerFires h d)
  obtain x where x: "changeMQ3 (sensorData s) d = Fin x" using changeMQ3_finite by blast
  have "js_add (mq3 (sensorData s)) (changeMQ3 (sensorData s) d) \<noteq> NaN"
    unfolding x using assms(2) by (rule js_add_Fin_not_NaN)
  then have "mq3 (simulation_tick (sensorData s) d) \<noteq> NaN"
    unfolding simulation_tick_mq3 by (rule Math_max_not_NaN)
  then show ?thesis using step_sensorData [OF assms(1)] TimerFires by simp
qed (use assms step_sensorData [OF assms(1)] in simp_all)

text \<open>
  In every state reached from the first render the primary channel is a number, so the
  confidence of its verdict lies between 85 and 99.9.
\<close>

lemma run_mq3_not_NaN:
  "run evs s = Some s' \<Longrightarrow> mq3 (sensorData s) \<noteq> NaN \<Longrightarrow> mq3 (sensorData s') \<noteq> NaN"
proof (induction evs arbitrary: s)
  case Nil
  then show ?case by simp
next
  case (Cons a evs)
  obtain t ev where a: "a = (t, ev)" by (cases a)
  from Cons.prems(1) a obtain s1 where s1: "step t ev s = Some s1" and r: "run evs s1 = Some s'"
    by (auto split: option.splits)
  from s1 Cons.prems(2) have "mq3 (sensorData s1) \<noteq> NaN" by (rule step_mq3_not_NaN)
  with r show ?case by (rule Cons.IH)
qed

lemma reachable_confidence_range:
  assumes "run evs (mount t0) = Some s"
  shows "\<exists>c. confidence_value (sensorData s) = Fin c \<and> 85 \<le> c \<and> c \<le> 99.9"
proof -
  have "mq3 (sensorData (mount t0)) \<noteq> NaN" by (simp add: sensorData_mount)
  with assms have "mq3 (sensorData s) \<noteq> NaN" by (rule run_mq3_not_NaN)
  then show ?thesis by (rule confidence_value_range)
qed

end
